theory Spec2Isabelle
  imports Complex_Main "HOL-Library.AList"
begin

section \<open>Values shared by all components\<close>

text \<open>
  Timestamps are the results of \<^verbatim>\<open>time.time()\<close>; they are modelled as reals
  (rounding of floats is not modelled). One call of an operation reads the clock once:
  the value is the argument \<open>now\<close>.

  JSON values, as far as the gateway looks into them.
\<close>

datatype json =
    JNull
  | JBool bool
  | JNum real
  | JStr string
  | JList "json list"
  | JDict "(string \<times> json) list"

type_synonym jdict = "(string \<times> json) list"

text \<open>
  A Python \<^verbatim>\<open>dict\<close> whose order is observable is an association list:
  \<^verbatim>\<open>d[k] = v\<close> replaces in place or appends, \<^verbatim>\<open>d.update(u)\<close> stores the items of
  \<open>u\<close> one after the other.
\<close>

definition dict_get :: "('k \<times> 'v) list \<Rightarrow> 'k \<Rightarrow> 'v option" where
  "dict_get d k = map_of d k"

definition dict_set :: "('k \<times> 'v) list \<Rightarrow> 'k \<Rightarrow> 'v \<Rightarrow> ('k \<times> 'v) list" where
  "dict_set d k v = AList.update k v d"

definition dict_del :: "('k \<times> 'v) list \<Rightarrow> 'k \<Rightarrow> ('k \<times> 'v) list" where
  "dict_del d k = AList.delete k d"

definition dict_keys :: "('k \<times> 'v) list \<Rightarrow> 'k list" where
  "dict_keys d = map fst d"

definition dict_update :: "('k \<times> 'v) list \<Rightarrow> ('k \<times> 'v) list \<Rightarrow> ('k \<times> 'v) list" where
  "dict_update d u = fold (\<lambda>(k, v) acc. dict_set acc k v) u d"

text \<open>The exceptions the modelled code raises or lets through.\<close>

datatype http_detail =
    Detail string
  | Error_detail string string

datatype exn =
    HTTPException nat http_detail
  | ValueError string
  | ValidationError string
  | IndexError

section \<open>Credential service (fast\_api/security\_manager.py)\<close>

text \<open>
  \<^verbatim>\<open>jose.jwt.decode\<close> is a library function: the model takes it as the parameter
  \<open>decode\<close>, which returns the claims of a token or the class of the exception
  raised. Claims are string-valued.
\<close>

datatype jwt_error = ExpiredSignatureError | JWTClaimsError | JWTError

type_synonym claims = "(string \<times> string) list"

text \<open>
  \<^verbatim>\<open>SecurityManager.verify_token\<close>. The token is \<open>None\<close> when the caller had none
  to give (a missing query parameter). The \<^verbatim>\<open>HTTPException\<close> raised for a
  missing token is not a \<^verbatim>\<open>JWTError\<close>, so none of the handlers catches it.
\<close>

definition verify_token :: "(string \<Rightarrow> jwt_error + claims) \<Rightarrow> string option \<Rightarrow> exn + claims" where
  "verify_token decode token =
     (if token = None \<or> token = Some [] \<or> token = Some ''undefined'' \<or> token = Some ''null''
      then Inl (HTTPException 401
                  (Error_detail ''Authentication required'' ''Token is missing or invalid''))
      else (case decode (the token) of
              Inr payload \<Rightarrow> Inr payload
            | Inl ExpiredSignatureError \<Rightarrow>
                Inl (HTTPException 401
                  (Error_detail ''Token expired'' ''Your token has expired. Please login again.''))
            | Inl JWTClaimsError \<Rightarrow>
                Inl (HTTPException 401
                  (Error_detail ''Invalid token claims'' ''Token claims are invalid''))
            | Inl JWTError \<Rightarrow>
                Inl (HTTPException 401
                  (Error_detail ''Invalid token'' ''Token verification failed''))))"


section \<open>The shared store and the state of one gateway process\<close>

text \<open>
  The key-value store holds three keyspaces. \<open>users:<username>\<close> is a hash with the
  four fields every writer sets together. \<open>sessions:<id>\<close> is the JSON text of a
  session; the model keeps the decoded object. \<open>connections:<user>\<close> is a hash whose
  fields are written and deleted one by one, so each is optional.
\<close>

record user_rec =
  u_password :: string
  u_email :: string
  u_role :: string
  u_last_login :: real

record session_rec =
  s_user_id :: string
  s_chat_id :: string
  s_data :: jdict
  s_created_at :: real
  s_last_access :: real

record conn_hash =
  c_session_id :: "string option"
  c_gateway_id :: "string option"
  c_ws_connected :: "string option"
  c_last_seen :: "real option"
  c_connected_at :: "real option"

definition empty_hash :: conn_hash where
  "empty_hash = \<lparr>c_session_id = None, c_gateway_id = None, c_ws_connected = None,
                  c_last_seen = None, c_connected_at = None\<rparr>"

text \<open>An entry of \<^verbatim>\<open>SessionHandler._pending_updates\<close>.\<close>

record pending =
  p_user_id :: string
  p_chat_id :: string
  p_updates :: jdict
  p_last_access :: real

text \<open>
  Coroutines handed to \<^verbatim>\<open>asyncio.create_task\<close>: they are scheduled, and run
  when the creating coroutine next waits.
\<close>

datatype task =
    Publish string jdict
  | Process_api_key_update string string string
  | Ping_loop string string nat
  | Inactivity_monitor string string nat

text \<open>Frames the gateway writes to a socket.\<close>

datatype frame =
    Connected_frame string string string nat nat
  | Ack_frame string string string
  | Error_frame string
  | Pong_frame real
  | Ping_frame real

datatype ws_state = CONNECTING | CONNECTED | DISCONNECTED

text \<open>
  A server-side socket: the two state fields of Starlette's \<^verbatim>\<open>WebSocket\<close>, the
  frames sent and the close frame, if one was sent.
\<close>

record websocket =
  client_state :: ws_state
  application_state :: ws_state
  sent :: "frame list"
  close_frame :: "(nat \<times> string) option"

record cached_message =
  m_message_type :: string
  m_message_data :: string
  m_timestamp :: real
  m_user_id :: string
  m_session_id :: string

record connection_state =
  last_activity :: real
  last_pong :: real
  ping_task :: "task option"
  inactivity_task :: "task option"

record connection_info =
  i_websocket :: nat
  i_gateway_id :: string
  i_last_seen :: real
  i_user_id :: string
  i_session_id :: string
  i_connected_at :: real
  i_role :: string

text \<open>
  The state one gateway process works on: the store and the event bus (shared with the
  other replicas), and the dictionaries the process keeps in memory. Keys that expire by
  their TTL are removed by the store, not by this code; expiry is not modelled.
\<close>

record gw =
  kv_users :: "(string \<times> user_rec) list"
  kv_sessions :: "(string \<times> session_rec) list"
  kv_connections :: "(string \<times> conn_hash) list"
  published :: "(string \<times> jdict) list"
  users_cache :: "string \<rightharpoonup> user_rec"
  session_cache :: "string \<rightharpoonup> (session_rec \<times> real)"
  last_timestamp_updates :: "string \<rightharpoonup> real"
  last_connection_updates :: "string \<rightharpoonup> real"
  pending_updates :: "(string \<times> pending) list"
  tasks :: "task list"
  message_cache :: "(string \<times> (string \<times> (string \<times> cached_message) list) list) list"
  connection_states :: "string \<rightharpoonup> connection_state"
  active_connections :: "string \<rightharpoonup> connection_info"
  connections_count :: int
  sockets :: "nat \<Rightarrow> websocket"

text \<open>
  What the process reads from its environment and configuration, and the library
  functions it calls: the password digest, the token encoder and decoder.
\<close>

record env =
  hash_password :: "string \<Rightarrow> string"
  create_access_token :: "claims \<Rightarrow> string"
  jwt_decode :: "string \<Rightarrow> jwt_error + claims"
  HOST :: string
  PORT :: string
  POD_NAME :: string
  timeout_seconds :: nat
  access_token_expire_minutes :: nat
  CACHE_TTL :: real
  PING_INTERVAL :: nat
  INACTIVITY_TIMEOUT :: nat

definition host_port :: "env \<Rightarrow> string" where
  "host_port e = HOST e @ '':'' @ PORT e"

definition get_gateway_id :: "env \<Rightarrow> string" where
  "get_gateway_id e = POD_NAME e @ '':8000''"

section \<open>Event bus (session/events.py)\<close>

definition publish :: "string \<Rightarrow> jdict \<Rightarrow> gw \<Rightarrow> gw" where
  "publish channel payload s = s\<lparr>published := published s @ [(channel, payload)]\<rparr>"


section \<open>Session store (session/handler.py)\<close>

definition session_cache_ttl :: real where
  "session_cache_ttl = 30"

definition timestamp_update_interval :: real where
  "timestamp_update_interval = 30"

definition new_session :: "string \<Rightarrow> string \<Rightarrow> real \<Rightarrow> session_rec" where
  "new_session user chat now =
     \<lparr>s_user_id = user, s_chat_id = chat,
      s_data = [(''conversation'', JList []), (''api_key'', JNull)],
      s_created_at = now, s_last_access = now\<rparr>"

text \<open>
  The last part of \<^verbatim>\<open>get_or_create_session\<close>: a new session under the identifier
  \<open>new_sid\<close>, the string of the UUID that \<^verbatim>\<open>uuid.uuid4()\<close> draws.
\<close>

definition create_session ::
  "string \<Rightarrow> real \<Rightarrow> string \<Rightarrow> string \<Rightarrow> gw \<Rightarrow> (session_rec \<times> string) \<times> gw" where
  "create_session new_sid now user chat s =
     (let session = new_session user chat now;
          s1 = s\<lparr>kv_sessions := dict_set (kv_sessions s) new_sid session\<rparr>;
          s2 = s1\<lparr>session_cache := (session_cache s1)(new_sid \<mapsto> (session, now))\<rparr>;
          s3 = publish (''events:session:new:'' @ user)
                 [(''session_id'', JStr new_sid), (''user_id'', JStr user),
                  (''chat_id'', JStr chat)] s2
      in ((session, new_sid), s3))"

text \<open>The middle part: the cache missed, the store is asked.\<close>

definition fetch_session ::
  "string \<Rightarrow> real \<Rightarrow> string \<Rightarrow> string \<Rightarrow> string \<Rightarrow> gw \<Rightarrow> (session_rec \<times> string) \<times> gw" where
  "fetch_session new_sid now user chat sid s =
     (case dict_get (kv_sessions s) sid of
        Some session \<Rightarrow>
          ((session, sid), s\<lparr>session_cache := (session_cache s)(sid \<mapsto> (session, now))\<rparr>)
      | None \<Rightarrow> create_session new_sid now user chat s)"

definition get_or_create_session ::
  "string \<Rightarrow> real \<Rightarrow> string \<Rightarrow> string \<Rightarrow> string option \<Rightarrow> gw
   \<Rightarrow> (session_rec \<times> string) \<times> gw" where
  "get_or_create_session new_sid now user chat session_id s =
     (case session_id of
        None \<Rightarrow> create_session new_sid now user chat s
      | Some sid \<Rightarrow>
          (if sid = [] then create_session new_sid now user chat s
           else (case session_cache s sid of
                   Some (cached_data, cached_at) \<Rightarrow>
                     (if now - cached_at < session_cache_ttl then ((cached_data, sid), s)
                      else fetch_session new_sid now user chat sid s)
                 | None \<Rightarrow> fetch_session new_sid now user chat sid s)))"

text \<open>\<^verbatim>\<open>update_session\<close> only queues: the store is not touched.\<close>

definition update_session :: "real \<Rightarrow> string \<Rightarrow> string \<Rightarrow> jdict \<Rightarrow> string \<Rightarrow> gw \<Rightarrow> gw" where
  "update_session now user chat updates sid s =
     (case dict_get (pending_updates s) sid of
        None \<Rightarrow>
          s\<lparr>pending_updates := dict_set (pending_updates s) sid
               \<lparr>p_user_id = user, p_chat_id = chat, p_updates = updates,
                p_last_access = now\<rparr>\<rparr>
      | Some p \<Rightarrow>
          s\<lparr>pending_updates := dict_set (pending_updates s) sid
               (p\<lparr>p_updates := dict_update (p_updates p) updates, p_last_access := now\<rparr>)\<rparr>)"

text \<open>
  One round of \<^verbatim>\<open>_batch_writer\<close>, after its sleep. The second pipeline is filled
  in program order: for each pending entry whose session the first pipeline found, the
  \<^verbatim>\<open>SET\<close> is queued on the pipeline and the publication is handed to
  \<^verbatim>\<open>asyncio.create_task\<close>; after the loop the pipeline is executed.
\<close>

datatype writer_step =
    Queue_set string session_rec nat
  | Create_task task
  | Execute_pipeline






definition delete_session :: "string \<Rightarrow> gw \<Rightarrow> gw" where
  "delete_session sid s = s\<lparr>kv_sessions := dict_del (kv_sessions s) sid\<rparr>"

definition update_timestamp_only :: "real \<Rightarrow> string \<Rightarrow> gw \<Rightarrow> gw" where
  "update_timestamp_only now sid s =
     (let last_update = (case last_timestamp_updates s sid of None \<Rightarrow> 0 | Some t \<Rightarrow> t)
      in if now - last_update \<ge> timestamp_update_interval
         then (case dict_get (kv_sessions s) sid of
                 Some session \<Rightarrow>
                   s\<lparr>kv_sessions :=
                        dict_set (kv_sessions s) sid (session\<lparr>s_last_access := now\<rparr>),
                     last_timestamp_updates := (last_timestamp_updates s)(sid \<mapsto> now)\<rparr>
               | None \<Rightarrow> s)
         else s)"

text \<open>
  \<^verbatim>\<open>cleanup_user_sessions\<close> lists the session keys once and then reads and
  deletes key by key.
\<close>

fun cleanup_keys :: "string \<Rightarrow> string list \<Rightarrow> gw \<Rightarrow> gw" where
  "cleanup_keys user [] s = s"
| "cleanup_keys user (key # keys) s =
     cleanup_keys user keys
       (case dict_get (kv_sessions s) key of
          Some session \<Rightarrow>
            (if s_user_id session = user then s\<lparr>kv_sessions := dict_del (kv_sessions s) key\<rparr>
             else s)
        | None \<Rightarrow> s)"

definition cleanup_user_sessions :: "string \<Rightarrow> gw \<Rightarrow> gw" where
  "cleanup_user_sessions user s = cleanup_keys user (dict_keys (kv_sessions s)) s"

section \<open>Connection tracker (session/connections.py)\<close>

definition connection_payload :: "conn_hash \<Rightarrow> jdict" where
  "connection_payload c =
     [(''session_id'', case c_session_id c of Some x \<Rightarrow> JStr x | None \<Rightarrow> JNull),
      (''gateway_id'', case c_gateway_id c of Some x \<Rightarrow> JStr x | None \<Rightarrow> JNull),
      (''ws_connected'', case c_ws_connected c of Some x \<Rightarrow> JStr x | None \<Rightarrow> JNull),
      (''last_seen'', case c_last_seen c of Some x \<Rightarrow> JNum x | None \<Rightarrow> JNull)]"

text \<open>\<^verbatim>\<open>HSET\<close> of some fields keeps the other fields of a hash that exists.\<close>

definition hgetall_or_empty :: "(string \<times> conn_hash) list \<Rightarrow> string \<Rightarrow> conn_hash" where
  "hgetall_or_empty kv user = (case dict_get kv user of Some c \<Rightarrow> c | None \<Rightarrow> empty_hash)"

definition track_connection ::
  "env \<Rightarrow> real \<Rightarrow> string \<Rightarrow> string \<Rightarrow> string option \<Rightarrow> bool \<Rightarrow> gw \<Rightarrow> gw" where
  "track_connection e now user sid gateway_id ws s =
     (let gateway = (case gateway_id of None \<Rightarrow> host_port e | Some g \<Rightarrow> g);
          c = (hgetall_or_empty (kv_connections s) user)
                \<lparr>c_session_id := Some sid, c_gateway_id := Some gateway,
                 c_ws_connected := Some (if ws then ''1'' else ''0''),
                 c_last_seen := Some now\<rparr>;
          s1 = s\<lparr>kv_connections := dict_set (kv_connections s) user c\<rparr>
      in publish (''events:connection:'' @ (if ws then ''ws'' else ''http'') @ '':'' @ user)
           (connection_payload c) s1)"

text \<open>
  \<^verbatim>\<open>get_connection_info\<close>: \<^verbatim>\<open>HGETALL\<close> gives the empty dictionary for a key
  that does not exist, which the callers test with \<^verbatim>\<open>if not conn\<close>; the model
  returns \<open>None\<close> there.
\<close>

definition get_connection_info :: "string \<Rightarrow> gw \<Rightarrow> conn_hash option" where
  "get_connection_info user s = dict_get (kv_connections s) user"

definition update_connection_timestamp :: "env \<Rightarrow> real \<Rightarrow> string \<Rightarrow> string \<Rightarrow> gw \<Rightarrow> gw" where
  "update_connection_timestamp e now user sid s =
     (let last_update = (case last_connection_updates s user of None \<Rightarrow> 0 | Some t \<Rightarrow> t)
      in if now - last_update \<ge> timestamp_update_interval
         then s\<lparr>kv_connections :=
                  dict_set (kv_connections s) user
                    ((hgetall_or_empty (kv_connections s) user)
                       \<lparr>c_gateway_id := Some (host_port e), c_last_seen := Some now\<rparr>),
                last_connection_updates := (last_connection_updates s)(user \<mapsto> now)\<rparr>
         else s)"

definition remove_connection :: "string \<Rightarrow> gw \<Rightarrow> gw" where
  "remove_connection user s =
     publish (''events:connection:removed:'' @ user) [(''user_id'', JStr user)]
       (s\<lparr>kv_connections := dict_del (kv_connections s) user\<rparr>)"


section \<open>User store (session/users.py)\<close>

definition user_payload :: "user_rec \<Rightarrow> jdict" where
  "user_payload u =
     [(''password'', JStr (u_password u)), (''email'', JStr (u_email u)),
      (''role'', JStr (u_role u)), (''last_login'', JNum (u_last_login u))]"

definition save_user_to_redis :: "string \<Rightarrow> user_rec \<Rightarrow> gw \<Rightarrow> gw" where
  "save_user_to_redis username user_data s =
     publish (''events:user:register:'' @ username)
       [(''username'', JStr username), (''user_data'', JDict (user_payload user_data))]
       (s\<lparr>kv_users := dict_set (kv_users s) username user_data,
          users_cache := (users_cache s)(username \<mapsto> user_data)\<rparr>)"

definition get_user_from_redis :: "string \<Rightarrow> gw \<Rightarrow> user_rec option \<times> gw" where
  "get_user_from_redis username s =
     (case users_cache s username of
        Some u \<Rightarrow> (Some u, s)
      | None \<Rightarrow>
          (case dict_get (kv_users s) username of
             Some u \<Rightarrow> (Some u, s\<lparr>users_cache := (users_cache s)(username \<mapsto> u)\<rparr>)
           | None \<Rightarrow> (None, s)))"

definition register :: "env \<Rightarrow> real \<Rightarrow> string \<Rightarrow> string \<Rightarrow> string \<Rightarrow> gw \<Rightarrow> (exn + string) \<times> gw" where
  "register e now username email pw s =
     (case get_user_from_redis username s of
        (Some existing_user, s1) \<Rightarrow>
          (Inl (HTTPException 400 (Detail ''Username already exists'')), s1)
      | (None, s1) \<Rightarrow>
          (Inr username,
           save_user_to_redis username
             \<lparr>u_password = hash_password e pw, u_email = email, u_role = ''user'',
              u_last_login = now\<rparr> s1))"

record login_response =
  access_token :: string
  expires_in :: nat
  lr_username :: string
  lr_role :: string
  lr_session_id :: string

text \<open>
  The single-session step of \<^verbatim>\<open>login\<close>: the session that the user's connection
  record names, when it names one, is deleted with the record, and the implicit logout
  is published.
\<close>

definition delete_old_session :: "string \<Rightarrow> gw \<Rightarrow> gw" where
  "delete_old_session user s =
     (case get_connection_info user s of
        None \<Rightarrow> s
      | Some existing_conn \<Rightarrow>
          (case c_session_id existing_conn of
             None \<Rightarrow> s
           | Some old_session_id \<Rightarrow>
               (if old_session_id = [] then s
                else publish (''events:session:logout:'' @ user)
                       [(''user_id'', JStr user), (''session_id'', JStr old_session_id),
                        (''reason'', JStr ''new_login'')]
                       (remove_connection user (delete_session old_session_id s)))))"

definition login ::
  "env \<Rightarrow> real \<Rightarrow> string \<Rightarrow> string \<Rightarrow> string \<Rightarrow> gw \<Rightarrow> (exn + login_response) \<times> gw" where
  "login e now new_sid username pw s =
     (case get_user_from_redis username s of
        (None, s1) \<Rightarrow> (Inl (HTTPException 401 (Detail ''Invalid username or password'')), s1)
      | (Some user_data, s1) \<Rightarrow>
          (if u_password user_data \<noteq> hash_password e pw
           then (Inl (HTTPException 401 (Detail ''Invalid username or password'')), s1)
           else (let token = create_access_token e
                               [(''sub'', username), (''user_id'', username),
                                (''role'', u_role user_data)];
                     s2 = save_user_to_redis username (user_data\<lparr>u_last_login := now\<rparr>) s1;
                     s3 = delete_old_session username s2;
                     ((session, session_id), s4) =
                        get_or_create_session new_sid now username ''default'' None s3;
                     s5 = track_connection e now username session_id (Some (host_port e))
                            False s4;
                     s6 = update_timestamp_only now session_id s5
                 in (Inr \<lparr>access_token = token,
                           expires_in = access_token_expire_minutes e * 60,
                           lr_username = username, lr_role = u_role user_data,
                           lr_session_id = session_id\<rparr>, s6))))"

text \<open>What the auth gate returns: the current user.\<close>

record principal =
  pr_user_id :: string
  pr_username :: "string option"
  pr_role :: string
  pr_session_id :: "string option"

definition str_of :: "string option \<Rightarrow> string" where
  "str_of x = (case x of None \<Rightarrow> ''None'' | Some v \<Rightarrow> v)"

definition logout :: "principal \<Rightarrow> gw \<Rightarrow> gw" where
  "logout current_user s =
     publish (''events:session:logout:'' @ pr_user_id current_user)
       [(''user_id'', JStr (pr_user_id current_user)),
        (''session_id'', JStr (str_of (pr_session_id current_user))),
        (''action'', JStr ''cleanup_ws'')]
       (remove_connection (pr_user_id current_user) s)"

section \<open>Auth gate (session/manager.py)\<close>

text \<open>Python's \<^verbatim>\<open>a or b\<close> on optional strings: \<open>None\<close> and the empty string are false.\<close>

definition truthy :: "string option \<Rightarrow> bool" where
  "truthy x = (case x of None \<Rightarrow> False | Some v \<Rightarrow> v \<noteq> [])"

definition py_or :: "string option \<Rightarrow> string option \<Rightarrow> string option" where
  "py_or a b = (if truthy a then a else b)"

definition make_principal :: "string \<Rightarrow> claims \<Rightarrow> string option \<Rightarrow> principal" where
  "make_principal user payload session_id =
     \<lparr>pr_user_id = user, pr_username = dict_get payload ''sub'',
      pr_role = (case dict_get payload ''role'' of None \<Rightarrow> ''user'' | Some r \<Rightarrow> r),
      pr_session_id = session_id\<rparr>"

text \<open>
  The dependency that \<^verbatim>\<open>get_current_user_with_activity\<close> returns, used by the HTTP
  routes. Faults of the store (the \<^verbatim>\<open>except Exception\<close> branch, status 500) are not
  modelled: the store answers every call.
\<close>

definition get_current_user_with_activity ::
  "env \<Rightarrow> real \<Rightarrow> string \<Rightarrow> string option \<Rightarrow> gw \<Rightarrow> (exn + principal) \<times> gw" where
  "get_current_user_with_activity e now new_sid token s =
     (case verify_token (jwt_decode e) token of
        Inl ex \<Rightarrow> (Inl ex, s)
      | Inr payload \<Rightarrow>
          (let user_id = py_or (dict_get payload ''sub'') (dict_get payload ''user_id'')
           in if \<not> truthy user_id
              then (Inl (HTTPException 401 (Detail ''Invalid token: missing user_id'')), s)
              else (let user = the user_id;
                        (conn, s2) =
                          (case get_connection_info user s of
                             Some c \<Rightarrow> (Some c, s)
                           | None \<Rightarrow>
                               (let ((session, sid), s1) =
                                      get_or_create_session new_sid now user ''default'' None s;
                                    s2 = track_connection e now user sid
                                           (Some (get_gateway_id e)) False s1
                                in (get_connection_info user s2, s2)));
                        session_id = (case conn of None \<Rightarrow> None | Some c \<Rightarrow> c_session_id c)
                    in if \<not> truthy session_id
                       then (Inl (HTTPException 400 (Detail ''No active session found'')), s2)
                       else (Inr (make_principal user payload session_id),
                             update_timestamp_only now (the session_id)
                               (update_connection_timestamp e now user (the session_id) s2)))))"

text \<open>\<^verbatim>\<open>verify_and_update_activity\<close>, the variant the WebSocket engine calls.\<close>

definition verify_and_update_activity ::
  "env \<Rightarrow> real \<Rightarrow> string option \<Rightarrow> string option \<Rightarrow> gw \<Rightarrow> (exn + principal) \<times> gw" where
  "verify_and_update_activity e now token expected_session_id s =
     (case verify_token (jwt_decode e) token of
        Inl ex \<Rightarrow> (Inl ex, s)
      | Inr payload \<Rightarrow>
          (let user_id = py_or (dict_get payload ''sub'') (dict_get payload ''user_id'')
           in if \<not> truthy user_id
              then (Inl (HTTPException 401 (Detail ''Invalid token'')), s)
              else (let user = the user_id
                    in case get_connection_info user s of
                         None \<Rightarrow> (Inl (HTTPException 400 (Detail ''No active session'')), s)
                       | Some conn \<Rightarrow>
                           (let session_id = c_session_id conn
                            in if truthy expected_session_id \<and> session_id \<noteq> expected_session_id
                               then (Inl (HTTPException 400 (Detail ''Session mismatch'')), s)
                               else (Inr (make_principal user payload session_id),
                                     update_timestamp_only now (str_of session_id)
                                       (update_connection_timestamp e now user
                                          (str_of session_id) s))))))"

text \<open>The route \<^verbatim>\<open>POST /sessions/logout\<close>: the gate, then \<^verbatim>\<open>logout\<close>.\<close>

definition logout_user ::
  "env \<Rightarrow> real \<Rightarrow> string \<Rightarrow> string option \<Rightarrow> gw \<Rightarrow> (exn + string) \<times> gw" where
  "logout_user e now new_sid token s =
     (case get_current_user_with_activity e now new_sid token s of
        (Inl ex, s1) \<Rightarrow> (Inl ex, s1)
      | (Inr current_user, s1) \<Rightarrow> (Inr ''Logged out successfully'', logout current_user s1))"

section \<open>WebSocket registry (wss/registry.py)\<close>

text \<open>
  The socket operations the engine uses. \<open>ws_accept\<close> is the accept of a new socket.
  All senders of the engine test \<^verbatim>\<open>client_state == CONNECTED\<close> and swallow the
  exception of a send on a socket the server has closed: \<open>send_if_connected\<close>.
\<close>

definition ws_accept :: "nat \<Rightarrow> gw \<Rightarrow> gw" where
  "ws_accept w s =
     s\<lparr>sockets := (sockets s)
          (w := (sockets s w)\<lparr>client_state := CONNECTED, application_state := CONNECTED\<rparr>)\<rparr>"

definition ws_close :: "nat \<Rightarrow> nat \<Rightarrow> string \<Rightarrow> gw \<Rightarrow> gw" where
  "ws_close w code reason s =
     (if application_state (sockets s w) = CONNECTED
      then s\<lparr>sockets := (sockets s)
                 (w := (sockets s w)\<lparr>application_state := DISCONNECTED,
                                    close_frame := Some (code, reason)\<rparr>)\<rparr>
      else s)"

definition send_if_connected :: "nat \<Rightarrow> frame \<Rightarrow> gw \<Rightarrow> gw" where
  "send_if_connected w f s =
     (if client_state (sockets s w) = CONNECTED \<and> application_state (sockets s w) = CONNECTED
      then s\<lparr>sockets := (sockets s) (w := (sockets s w)\<lparr>sent := sent (sockets s w) @ [f]\<rparr>)\<rparr>
      else s)"

text \<open>
  \<^verbatim>\<open>track_ws_connection\<close>. \<^verbatim>\<open>ConnectionInfo\<close> requires a string for the session:
  without one its validation raises before anything is stored.
\<close>

definition track_ws_connection ::
  "real \<Rightarrow> string \<Rightarrow> string option \<Rightarrow> string \<Rightarrow> nat \<Rightarrow> gw \<Rightarrow> exn + gw" where
  "track_ws_connection now user session_id gateway w s =
     (case session_id of
        None \<Rightarrow> Inl (ValidationError ''session_id'')
      | Some sid \<Rightarrow>
          Inr (s\<lparr>active_connections := (active_connections s)
                    (user \<mapsto> \<lparr>i_websocket = w, i_gateway_id = gateway, i_last_seen = now,
                              i_user_id = user, i_session_id = sid, i_connected_at = now,
                              i_role = ''user''\<rparr>),
                 connections_count := connections_count s + 1,
                 kv_connections :=
                   dict_set (kv_connections s) user
                     ((hgetall_or_empty (kv_connections s) user)
                        \<lparr>c_session_id := Some sid, c_gateway_id := Some gateway,
                         c_ws_connected := Some ''1'', c_last_seen := Some now,
                         c_connected_at := Some now\<rparr>)\<rparr>))"

text \<open>\<^verbatim>\<open>HDEL key ws_connected\<close>: a hash that loses its last field is gone.\<close>

definition hdel_ws_connected :: "string \<Rightarrow> gw \<Rightarrow> gw" where
  "hdel_ws_connected user s =
     (case dict_get (kv_connections s) user of
        None \<Rightarrow> s
      | Some c \<Rightarrow>
          (if c\<lparr>c_ws_connected := None\<rparr> = empty_hash
           then s\<lparr>kv_connections := dict_del (kv_connections s) user\<rparr>
           else s\<lparr>kv_connections :=
                    dict_set (kv_connections s) user (c\<lparr>c_ws_connected := None\<rparr>)\<rparr>))"

definition remove_ws_connection :: "string \<Rightarrow> string option \<Rightarrow> gw \<Rightarrow> gw" where
  "remove_ws_connection user session_id s =
     (let s1 = (case active_connections s user of
                  None \<Rightarrow> s
                | Some conn_info \<Rightarrow>
                    ws_close (i_websocket conn_info) 1000 ''Session ended''
                      (s\<lparr>active_connections := (active_connections s)(user := None),
                         connections_count := connections_count s - 1\<rparr>))
      in publish (''events:connection:removed:'' @ user)
           [(''user_id'', JStr user),
            (''session_id'', case session_id of None \<Rightarrow> JNull | Some sid \<Rightarrow> JStr sid)]
           (hdel_ws_connected user s1))"

section \<open>WebSocket engine (wss/manager.py)\<close>

definition create_task :: "task \<Rightarrow> gw \<Rightarrow> gw" where
  "create_task t s = s\<lparr>tasks := tasks s @ [t]\<rparr>"

definition cancel_task :: "task option \<Rightarrow> gw \<Rightarrow> gw" where
  "cancel_task t s = (case t of None \<Rightarrow> s | Some x \<Rightarrow> s\<lparr>tasks := remove1 x (tasks s)\<rparr>)"

definition stop_health_monitoring :: "string \<Rightarrow> gw \<Rightarrow> gw" where
  "stop_health_monitoring user s =
     (case connection_states s user of
        None \<Rightarrow> s
      | Some state \<Rightarrow> cancel_task (inactivity_task state) (cancel_task (ping_task state) s))"

definition start_health_monitoring :: "string \<Rightarrow> string \<Rightarrow> nat \<Rightarrow> gw \<Rightarrow> gw" where
  "start_health_monitoring user sid w s =
     (let s1 = stop_health_monitoring user s;
          s2 = create_task (Inactivity_monitor user sid w)
                 (create_task (Ping_loop user sid w) s1)
      in case connection_states s2 user of
           None \<Rightarrow> s2
         | Some state \<Rightarrow>
             s2\<lparr>connection_states := (connection_states s2)
                  (user \<mapsto> state\<lparr>ping_task := Some (Ping_loop user sid w),
                                 inactivity_task := Some (Inactivity_monitor user sid w)\<rparr>)\<rparr>)"

definition send_welcome :: "env \<Rightarrow> nat \<Rightarrow> string \<Rightarrow> string \<Rightarrow> gw \<Rightarrow> gw" where
  "send_welcome e w user sid s =
     send_if_connected w
       (Connected_frame user sid (host_port e) (PING_INTERVAL e) (INACTIVITY_TIMEOUT e)) s"

definition cleanup_user_cache :: "string \<Rightarrow> string option \<Rightarrow> gw \<Rightarrow> gw" where
  "cleanup_user_cache user session_id s =
     (case dict_get (message_cache s) user of
        None \<Rightarrow> s
      | Some by_session \<Rightarrow>
          (let by_session' = (case session_id of
                                None \<Rightarrow> by_session
                              | Some sid \<Rightarrow> dict_del by_session sid)
           in if by_session' = []
              then s\<lparr>message_cache := dict_del (message_cache s) user\<rparr>
              else s\<lparr>message_cache := dict_set (message_cache s) user by_session'\<rparr>))"

text \<open>The \<^verbatim>\<open>finally\<close> block of \<^verbatim>\<open>ws_connect\<close>.\<close>

definition ws_cleanup :: "string \<Rightarrow> string option \<Rightarrow> gw \<Rightarrow> gw" where
  "ws_cleanup user session_id s =
     (let s1 = stop_health_monitoring user s;
          s2 = s1\<lparr>connection_states := (connection_states s1)(user := None)\<rparr>;
          s3 = cleanup_user_cache user session_id s2
      in remove_ws_connection user session_id s3)"

text \<open>
  \<^verbatim>\<open>ws_connect\<close> up to the call of the message loop. The result tells how the
  handshake ended: the socket was closed and the function returned (\<open>Rejected\<close>);
  tracking raised, and the \<^verbatim>\<open>finally\<close> block ran (\<open>Failed\<close>); or control reached
  \<^verbatim>\<open>await self._message_loop(...)\<close> for the user and role given (\<open>Message_loop\<close>).
  The loop itself and the cleanup after it are not part of this function.
\<close>

datatype handshake = Rejected | Failed | Message_loop string string

text \<open>
  The second \<^verbatim>\<open>try\<close> block of \<^verbatim>\<open>ws_connect\<close>: track the connection, create
  the health state, start the two monitors, send the welcome frame, enter the loop.
\<close>

definition ws_serve ::
  "env \<Rightarrow> real \<Rightarrow> nat \<Rightarrow> string \<Rightarrow> string \<Rightarrow> string option \<Rightarrow> gw \<Rightarrow> handshake \<times> gw" where
  "ws_serve e now w user user_role session_id s =
     (case track_ws_connection now user session_id (host_port e) w s of
        Inl ex \<Rightarrow> (Failed, ws_cleanup user session_id s)
      | Inr s1 \<Rightarrow>
          (let s2 = s1\<lparr>connection_states := (connection_states s1)
                        (user \<mapsto> \<lparr>last_activity = now, last_pong = now, ping_task = None,
                                  inactivity_task = None\<rparr>)\<rparr>;
               s3 = start_health_monitoring user (str_of session_id) w s2;
               s4 = send_welcome e w user (str_of session_id) s3
           in (Message_loop user user_role, s4)))"

definition ws_connect ::
  "env \<Rightarrow> real \<Rightarrow> nat \<Rightarrow> string option \<Rightarrow> string option \<Rightarrow> gw \<Rightarrow> handshake \<times> gw" where
  "ws_connect e now w session_id token s =
     (let s1 = ws_accept w s
      in case verify_token (jwt_decode e) token of
           Inl ex \<Rightarrow> (Rejected, ws_close w 1008 ''Invalid token'' s1)
         | Inr user \<Rightarrow>
             (if user = [] then (Rejected, ws_close w 1008 ''Invalid token'' s1)
              else (let user_id = py_or (dict_get user ''user_id'') (dict_get user ''sub'');
                        user_role = (case dict_get user ''role'' of None \<Rightarrow> ''user'' | Some r \<Rightarrow> r)
                    in if \<not> truthy user_id
                       then (Rejected, ws_close w 1008 ''Invalid token'' s1)
                       else (case get_connection_info (the user_id) s1 of
                               Some conn_info \<Rightarrow>
                                 (if c_session_id conn_info \<noteq> session_id
                                  then (Rejected, ws_close w 1008 ''Session mismatch'' s1)
                                  else ws_serve e now w (the user_id) user_role session_id s1)
                             | None \<Rightarrow>
                                 ws_serve e now w (the user_id) user_role session_id s1))))"


text \<open>The de-duplication cache and the built-in handler of \<open>update_api_key\<close>.\<close>

definition cached_lookup :: "string \<Rightarrow> string \<Rightarrow> string \<Rightarrow> gw \<Rightarrow> cached_message option" where
  "cached_lookup user sid message_type s =
     (case dict_get (message_cache s) user of
        None \<Rightarrow> None
      | Some by_session \<Rightarrow>
          (case dict_get by_session sid of
             None \<Rightarrow> None
           | Some by_type \<Rightarrow> dict_get by_type message_type))"

definition is_duplicate_message ::
  "env \<Rightarrow> real \<Rightarrow> string \<Rightarrow> string \<Rightarrow> string \<Rightarrow> string \<Rightarrow> gw \<Rightarrow> bool" where
  "is_duplicate_message e now user sid message_type message_data s =
     (case cached_lookup user sid message_type s of
        None \<Rightarrow> False
      | Some cached_msg \<Rightarrow>
          m_message_data cached_msg = message_data \<and> now - m_timestamp cached_msg < CACHE_TTL e)"

definition cache_message :: "real \<Rightarrow> string \<Rightarrow> string \<Rightarrow> string \<Rightarrow> string \<Rightarrow> gw \<Rightarrow> gw" where
  "cache_message now user sid message_type message_data s =
     (let by_session = (case dict_get (message_cache s) user of None \<Rightarrow> [] | Some d \<Rightarrow> d);
          by_type = (case dict_get by_session sid of None \<Rightarrow> [] | Some d \<Rightarrow> d);
          cached_msg = \<lparr>m_message_type = message_type, m_message_data = message_data,
                        m_timestamp = now, m_user_id = user, m_session_id = sid\<rparr>
      in s\<lparr>message_cache :=
             dict_set (message_cache s) user
               (dict_set by_session sid (dict_set by_type message_type cached_msg))\<rparr>)"

definition send_ack :: "env \<Rightarrow> nat \<Rightarrow> string \<Rightarrow> string \<Rightarrow> gw \<Rightarrow> gw" where
  "send_ack e w key sid s = send_if_connected w (Ack_frame key sid (host_port e)) s"

text \<open>
  \<^verbatim>\<open>_handle_api_key_update\<close>. The key is \<^verbatim>\<open>msg_dict.get("key", "")\<close>;
  \<^verbatim>\<open>CachedMessage\<close> requires a string, so any other JSON value makes its validation
  raise (the caller answers with an error frame).
\<close>

definition handle_api_key_update ::
  "env \<Rightarrow> real \<Rightarrow> string \<Rightarrow> string \<Rightarrow> jdict \<Rightarrow> nat \<Rightarrow> gw \<Rightarrow> exn + gw" where
  "handle_api_key_update e now user sid msg_dict w s =
     (case (case dict_get msg_dict ''key'' of None \<Rightarrow> JStr [] | Some v \<Rightarrow> v) of
        JStr key \<Rightarrow>
          (if is_duplicate_message e now user sid ''update_api_key'' key s
           then Inr (send_ack e w key sid s)
           else Inr (create_task (Process_api_key_update user sid key)
                       (send_ack e w key sid
                          (cache_message now user sid ''update_api_key'' key s))))
      | _ \<Rightarrow> Inl (ValidationError ''message_data''))"

text \<open>The body of the task: \<^verbatim>\<open>_process_api_key_update\<close> queues the session update.\<close>

definition process_api_key_update :: "real \<Rightarrow> string \<Rightarrow> string \<Rightarrow> string \<Rightarrow> gw \<Rightarrow> gw" where
  "process_api_key_update now user sid key s =
     update_session now user ''default'' [(''api_key'', JStr key)] sid s"

text \<open>The same message arriving at the given times, one after the other.\<close>

fun handle_api_key_updates ::
  "env \<Rightarrow> real list \<Rightarrow> string \<Rightarrow> string \<Rightarrow> jdict \<Rightarrow> nat \<Rightarrow> gw \<Rightarrow> exn + gw" where
  "handle_api_key_updates e [] user sid msg_dict w s = Inr s"
| "handle_api_key_updates e (now # later) user sid msg_dict w s =
     (case handle_api_key_update e now user sid msg_dict w s of
        Inl ex \<Rightarrow> Inl ex
      | Inr s1 \<Rightarrow> handle_api_key_updates e later user sid msg_dict w s1)"


section \<open>Reaper (session/cleaner.py)\<close>

text \<open>Python's \<^verbatim>\<open>str.split(sep)\<close> for a separator of one character.\<close>

fun split_on :: "char \<Rightarrow> string \<Rightarrow> string list" where
  "split_on sep [] = [[]]"
| "split_on sep (x # xs) =
     (if x = sep then [] # split_on sep xs
      else (case split_on sep xs of
              w # ws \<Rightarrow> (x # w) # ws
            | [] \<Rightarrow> [[x]]))"

text \<open>
  The store's answers to \<^verbatim>\<open>KEYS users:*\<close> and to \<^verbatim>\<open>HGETALL\<close> of such a key.
\<close>

definition user_keys :: "gw \<Rightarrow> string list" where
  "user_keys s = map (\<lambda>username. ''users:'' @ username) (dict_keys (kv_users s))"

definition hgetall_user :: "string \<Rightarrow> gw \<Rightarrow> user_rec option" where
  "hgetall_user key s =
     (if take 6 key = ''users:'' then dict_get (kv_users s) (drop 6 key) else None)"

text \<open>
  The body of the loop of \<^verbatim>\<open>cleanup_inactive_users\<close> for one key. The user name is
  \<^verbatim>\<open>key.split(":")[1]\<close>, which raises \<^verbatim>\<open>IndexError\<close> when the key has no colon.
\<close>

definition cleanup_inactive_user :: "real \<Rightarrow> string \<Rightarrow> gw \<Rightarrow> exn + gw" where
  "cleanup_inactive_user cutoff key s =
     (case split_on CHR '':'' key of
        part0 # username # parts \<Rightarrow>
          (let last_login = (case hgetall_user key s of
                               None \<Rightarrow> 0
                             | Some user_data \<Rightarrow> u_last_login user_data)
           in if last_login < cutoff
              then Inr (publish (''events:user:inactive_cleanup:'' @ username)
                          [(''username'', JStr username), (''reason'', JStr ''long_inactivity''),
                           (''action'', JStr ''cleanup_sessions_and_ws'')]
                          (remove_connection username (cleanup_user_sessions username s)))
              else Inr s)
      | _ \<Rightarrow> Inl IndexError)"

fun cleanup_inactive_keys :: "real \<Rightarrow> string list \<Rightarrow> gw \<Rightarrow> exn + gw" where
  "cleanup_inactive_keys cutoff [] s = Inr s"
| "cleanup_inactive_keys cutoff (key # keys) s =
     (case cleanup_inactive_user cutoff key s of
        Inl ex \<Rightarrow> Inl ex
      | Inr s1 \<Rightarrow> cleanup_inactive_keys cutoff keys s1)"

definition cleanup_inactive_users :: "int \<Rightarrow> real \<Rightarrow> gw \<Rightarrow> exn + gw" where
  "cleanup_inactive_users days_inactive now s =
     cleanup_inactive_keys (now - real_of_int (days_inactive * 86400)) (user_keys s) s"

text \<open>What the sweep is to do for one user: no session, no connection record, the event.\<close>

definition swept :: "string \<Rightarrow> gw \<Rightarrow> bool" where
  "swept user s \<longleftrightarrow>
     (\<forall>sid sess. dict_get (kv_sessions s) sid = Some sess \<longrightarrow> s_user_id sess \<noteq> user)
     \<and> dict_get (kv_connections s) user = None
     \<and> (''events:user:inactive_cleanup:'' @ user,
         [(''username'', JStr user), (''reason'', JStr ''long_inactivity''),
          (''action'', JStr ''cleanup_sessions_and_ws'')]) \<in> set (published s)"


section \<open>One flush round among other coroutines\<close>

text \<open>
  What can be observed of a round, in the order it happens: a \<^verbatim>\<open>SET\<close> is queued on
  the write pipeline, a publication reaches the bus, the call
  \<^verbatim>\<open>await pipe.execute()\<close> of the write pipeline returns.
\<close>

datatype round_event =
    Set_queued string
  | Published string jdict
  | Pipeline_executed








definition queued :: "round_event list \<Rightarrow> string set" where
  "queued trace = {sid. Set_queued sid \<in> set trace}"


fun script_ok :: "(string \<Rightarrow> task \<Rightarrow> bool) \<Rightarrow> string set \<Rightarrow> writer_step list \<Rightarrow> bool" where
  "script_ok J Q [] = True"
| "script_ok J Q (Queue_set sid v ex # rest) = script_ok J (insert sid Q) rest"
| "script_ok J Q (Create_task t # rest) = ((\<exists>sid \<in> Q. J sid t) \<and> script_ok J Q rest)"
| "script_ok J Q (Execute_pipeline # rest) = script_ok J Q rest"



section \<open>A concrete deployment\<close>

text \<open>
  A credential service that can be run: the digest prefixes the password, a token is
  the subject behind \<open>jwt.\<close>, and decoding reads it back.
\<close>

definition env0 :: env where
  "env0 = \<lparr>hash_password = (\<lambda>p. ''sha256:'' @ p),
           create_access_token = (\<lambda>c. ''jwt.'' @ str_of (dict_get c ''sub'')),
           jwt_decode = (\<lambda>t. if take 4 t = ''jwt.''
                              then Inr [(''sub'', drop 4 t), (''user_id'', drop 4 t),
                                        (''role'', ''user'')]
                              else Inl JWTError),
           HOST = ''localhost'', PORT = ''8000'', POD_NAME = ''localhost'',
           timeout_seconds = 1800, access_token_expire_minutes = 30,
           CACHE_TTL = 300, PING_INTERVAL = 25, INACTIVITY_TIMEOUT = 60\<rparr>"

text \<open>The empty store and a process that has just started.\<close>

definition gw0 :: gw where
  "gw0 = \<lparr>kv_users = [], kv_sessions = [], kv_connections = [], published = [],
          users_cache = Map.empty, session_cache = Map.empty,
          last_timestamp_updates = Map.empty, last_connection_updates = Map.empty,
          pending_updates = [], tasks = [], message_cache = [],
          connection_states = Map.empty, active_connections = Map.empty,
          connections_count = 0,
          sockets = (\<lambda>_. \<lparr>client_state = CONNECTING, application_state = CONNECTING,
                            sent = [], close_frame = None\<rparr>)\<rparr>"

text \<open>
  Alice registers, logs in (session \<open>S1\<close>), logs out through the route, and logs in
  again (session \<open>S2\<close>); or logs in a second time without logging out.
\<close>

definition alice_registered :: gw where
  "alice_registered = snd (register env0 1000 ''alice'' ''a@x'' ''pw'' gw0)"






section \<open>Upstream forwarder (utils/httpx\_manager.py)\<close>

text \<open>Python's \<^verbatim>\<open>str\<close> of a natural number, for \<^verbatim>\<open>f"HTTP_{status_code}"\<close>.\<close>

fun str_nat :: "nat \<Rightarrow> string" where
  "str_nat n =
     (if n < 10 then [''0123456789'' ! n]
      else str_nat (n div 10) @ [''0123456789'' ! (n mod 10)])"

declare str_nat.simps [simp del]

text \<open>
  What one call of the circuit-breaker-wrapped \<^verbatim>\<open>_execute_request\<close> can raise:
  the two subclasses of \<^verbatim>\<open>httpx.RequestError\<close> that the retry decorator names, any
  other request error, a status error with the status code and its message, the
  breaker's error when it is open, and anything else.
\<close>

datatype upstream_exn =
    TimeoutException
  | NetworkError
  | RequestError
  | HTTPStatusError nat string
  | CircuitBreakerError
  | OtherException


text \<open>
  The predicate the decorator of \<^verbatim>\<open>make_request\<close> does use:
  \<^verbatim>\<open>retry_if_exception_type\<close> of the four classes, whatever the status code.
\<close>

definition retry_if_exception_type :: "upstream_exn \<Rightarrow> bool" where
  "retry_if_exception_type exception =
     (case exception of
        TimeoutException \<Rightarrow> True
      | NetworkError \<Rightarrow> True
      | CircuitBreakerError \<Rightarrow> True
      | HTTPStatusError status_code msg \<Rightarrow> True
      | RequestError \<Rightarrow> False
      | OtherException \<Rightarrow> False)"

text \<open>
  The body of \<^verbatim>\<open>make_request\<close>, applied to what the wrapped call did: the breaker's
  error and every status error below 500 are turned into a returned dictionary, any
  other exception is raised again.
\<close>

definition make_request_body :: "upstream_exn + jdict \<Rightarrow> upstream_exn + jdict" where
  "make_request_body outcome =
     (case outcome of
        Inr body \<Rightarrow> Inr body
      | Inl CircuitBreakerError \<Rightarrow>
          Inr [(''error'', JStr ''CIRCUIT_BREAKER_OPEN''),
               (''message'', JStr ''Service temporarily unavailable'')]
      | Inl (HTTPStatusError status_code msg) \<Rightarrow>
          (if status_code < 500
           then Inr [(''error'', JStr (''HTTP_'' @ str_nat status_code)), (''message'', JStr msg)]
           else Inl (HTTPStatusError status_code msg))
      | Inl e \<Rightarrow> Inl e)"

text \<open>
  The decorator's loop (\<^verbatim>\<open>tenacity.retry\<close> with \<^verbatim>\<open>reraise=True\<close>): the body runs
  again while it raises an exception of a retried class and attempts are left.
  \<open>execute n\<close> is what the wrapped call does at attempt \<open>n\<close>; the result comes with the
  number of the last attempt made.
\<close>

fun retrying ::
  "nat \<Rightarrow> nat \<Rightarrow> (nat \<Rightarrow> upstream_exn + jdict) \<Rightarrow> (upstream_exn + jdict) \<times> nat" where
  "retrying 0 attempt execute = (make_request_body (execute attempt), attempt)"
| "retrying (Suc left) attempt execute =
     (case make_request_body (execute attempt) of
        Inr d \<Rightarrow> (Inr d, attempt)
      | Inl e \<Rightarrow>
          (if retry_if_exception_type e then retrying left (Suc attempt) execute
           else (Inl e, attempt)))"

definition stop_after_attempt :: nat where
  "stop_after_attempt = 3"

definition make_request :: "(nat \<Rightarrow> upstream_exn + jdict) \<Rightarrow> (upstream_exn + jdict) \<times> nat" where
  "make_request execute = retrying (stop_after_attempt - 1) 1 execute"





text \<open>
  A store with two accounts. \<open>a:b\<close> logged in long ago (session \<open>S1\<close>); \<open>a\<close> logged
  in a moment ago (session \<open>S2\<close>). The reaper runs at time \<open>40000000\<close> with 365 days.
\<close>

definition colon_store :: gw where
  "colon_store =
     gw0\<lparr>kv_users :=
           [(''a:b'', \<lparr>u_password = ''sha256:pw'', u_email = ''ab@x'', u_role = ''user'',
                      u_last_login = 1\<rparr>),
            (''a'', \<lparr>u_password = ''sha256:pw'', u_email = ''a@x'', u_role = ''user'',
                    u_last_login = 39999000\<rparr>)],
         kv_sessions :=
           [(''S1'', new_session ''a:b'' ''default'' 1),
            (''S2'', new_session ''a'' ''default'' 39999000)],
         kv_connections :=
           [(''a:b'', \<lparr>c_session_id = Some ''S1'', c_gateway_id = Some ''localhost:8000'',
                      c_ws_connected = Some ''0'', c_last_seen = Some 1,
                      c_connected_at = None\<rparr>),
            (''a'', \<lparr>c_session_id = Some ''S2'', c_gateway_id = Some ''localhost:8000'',
                    c_ws_connected = Some ''0'', c_last_seen = Some 39999000,
                    c_connected_at = None\<rparr>)]\<rparr>"

text \<open>The same store with the old account named \<open>bob\<close>.\<close>

definition bob_store :: gw where
  "bob_store =
     gw0\<lparr>kv_users :=
           [(''bob'', \<lparr>u_password = ''sha256:pw'', u_email = ''b@x'', u_role = ''user'',
                      u_last_login = 1\<rparr>),
            (''a'', \<lparr>u_password = ''sha256:pw'', u_email = ''a@x'', u_role = ''user'',
                    u_last_login = 39999000\<rparr>)],
         kv_sessions :=
           [(''S1'', new_session ''bob'' ''default'' 1),
            (''S2'', new_session ''a'' ''default'' 39999000)],
         kv_connections :=
           [(''bob'', \<lparr>c_session_id = Some ''S1'', c_gateway_id = Some ''localhost:8000'',
                      c_ws_connected = Some ''0'', c_last_seen = Some 1,
                      c_connected_at = None\<rparr>),
            (''a'', \<lparr>c_session_id = Some ''S2'', c_gateway_id = Some ''localhost:8000'',
                    c_ws_connected = Some ''0'', c_last_seen = Some 39999000,
                    c_connected_at = None\<rparr>)]\<rparr>"


text \<open>The three calls of the branch for an inactive user.\<close>

definition sweep_user :: "string \<Rightarrow> gw \<Rightarrow> gw" where
  "sweep_user w s =
     publish (''events:user:inactive_cleanup:'' @ w)
       [(''username'', JStr w), (''reason'', JStr ''long_inactivity''),
        (''action'', JStr ''cleanup_sessions_and_ws'')]
       (remove_connection w (cleanup_user_sessions w s))"


section \<open>Properties\<close>

subsection \<open>Token verification\<close>

text \<open>
  C8. A token that is missing, the empty string, the literal \<open>undefined\<close> or the literal
  \<open>null\<close> makes \<open>verify_token\<close> raise the 401 exception, whatever the decoder would do:
  no claims are returned and no other exception comes out.
\<close>

theorem verify_token_missing_401:
  "verify_token decode None =
     Inl (HTTPException 401 (Error_detail ''Authentication required'' ''Token is missing or invalid''))
   \<and> verify_token decode (Some '''') =
     Inl (HTTPException 401 (Error_detail ''Authentication required'' ''Token is missing or invalid''))
   \<and> verify_token decode (Some ''undefined'') =
     Inl (HTTPException 401 (Error_detail ''Authentication required'' ''Token is missing or invalid''))
   \<and> verify_token decode (Some ''null'') =
     Inl (HTTPException 401 (Error_detail ''Authentication required'' ''Token is missing or invalid''))"
  by (simp add: verify_token_def)

subsection \<open>Effects of the store operations\<close>

lemma dict_get_set [simp]:
  "dict_get (dict_set d k v) k' = (if k' = k then Some v else dict_get d k')"
  by (simp add: dict_get_def dict_set_def update_conv')

lemma dict_get_del [simp]:
  "dict_get (dict_del d k) k' = (if k' = k then None else dict_get d k')"
  by (simp add: dict_get_def dict_del_def delete_conv')

lemma publish_fields [simp]:
  "published (publish c p s) = published s @ [(c, p)]"
  "kv_users (publish c p s) = kv_users s"
  "kv_sessions (publish c p s) = kv_sessions s"
  "kv_connections (publish c p s) = kv_connections s"
  "last_timestamp_updates (publish c p s) = last_timestamp_updates s"
  "last_connection_updates (publish c p s) = last_connection_updates s"
  "session_cache (publish c p s) = session_cache s"
  "users_cache (publish c p s) = users_cache s"
  "pending_updates (publish c p s) = pending_updates s"
  "tasks (publish c p s) = tasks s"
  by (simp_all add: publish_def)

lemma update_timestamp_only_frame:
  "kv_connections (update_timestamp_only now sid s) = kv_connections s"
  "kv_users (update_timestamp_only now sid s) = kv_users s"
  "published (update_timestamp_only now sid s) = published s"
  by (simp_all add: update_timestamp_only_def Let_def split: option.splits)

lemma update_timestamp_only_sessions:
  "dict_get (kv_sessions (update_timestamp_only now sid s)) k =
     (case dict_get (kv_sessions s) k of
        None \<Rightarrow> None
      | Some sess \<Rightarrow>
          Some (if k = sid \<and> now - (case last_timestamp_updates s sid of None \<Rightarrow> 0 | Some t \<Rightarrow> t)
                               \<ge> timestamp_update_interval
                then sess\<lparr>s_last_access := now\<rparr> else sess))"
  by (auto simp add: update_timestamp_only_def Let_def split: option.splits)

lemma update_timestamp_only_owner:
  "(\<exists>sess. dict_get (kv_sessions (update_timestamp_only now sid s)) k = Some sess
        \<and> s_user_id sess = u \<and> s_chat_id sess = c)
   \<longleftrightarrow> (\<exists>sess. dict_get (kv_sessions s) k = Some sess \<and> s_user_id sess = u \<and> s_chat_id sess = c)"
  by (auto simp add: update_timestamp_only_sessions split: option.splits)

lemma update_connection_timestamp_frame:
  "kv_sessions (update_connection_timestamp e now u sid s) = kv_sessions s"
  "kv_users (update_connection_timestamp e now u sid s) = kv_users s"
  "published (update_connection_timestamp e now u sid s) = published s"
  "last_timestamp_updates (update_connection_timestamp e now u sid s) = last_timestamp_updates s"
  by (simp_all add: update_connection_timestamp_def Let_def)

lemma update_connection_timestamp_conn:
  "dict_get (kv_connections s) u = Some c \<Longrightarrow>
   \<exists>c'. dict_get (kv_connections (update_connection_timestamp e now u sid s)) u = Some c'
      \<and> c_session_id c' = c_session_id c \<and> c_ws_connected c' = c_ws_connected c"
  by (simp add: update_connection_timestamp_def Let_def hgetall_or_empty_def)










subsection \<open>The scenario, step by step\<close>

lemmas scenario_defs =
  register_def login_def logout_user_def logout_def get_user_from_redis_def
  save_user_to_redis_def delete_old_session_def get_connection_info_def
  get_or_create_session_def create_session_def new_session_def track_connection_def
  update_timestamp_only_def update_connection_timestamp_def remove_connection_def
  delete_session_def get_current_user_with_activity_def verify_token_def
  make_principal_def py_or_def truthy_def str_of_def hgetall_or_empty_def empty_hash_def
  timestamp_update_interval_def host_port_def get_gateway_id_def publish_def
  dict_get_def dict_set_def dict_del_def env0_def Let_def

lemma alice_registered_fields:
  "kv_users alice_registered =
     [(''alice'', \<lparr>u_password = ''sha256:pw'', u_email = ''a@x'', u_role = ''user'',
                   u_last_login = 1000\<rparr>)]"
  "users_cache alice_registered ''alice'' =
     Some \<lparr>u_password = ''sha256:pw'', u_email = ''a@x'', u_role = ''user'',
           u_last_login = 1000\<rparr>"
  "kv_sessions alice_registered = []"
  "kv_connections alice_registered = []"
  "last_timestamp_updates alice_registered = Map.empty"
  "last_connection_updates alice_registered = Map.empty"
  "pending_updates alice_registered = []"
  by (simp_all add: alice_registered_def gw0_def scenario_defs)






subsection \<open>Login and the single-session policy\<close>




subsection \<open>The auth gates\<close>

text \<open>
  C2, as the claim states it, fails for the gate of the WebSocket engine:
  \<^verbatim>\<open>verify_and_update_activity\<close> raises the 400 exception when the user of a valid
  token has no connection record, and creates nothing.
\<close>

theorem ws_gate_no_connection_fails:
  "fst (verify_and_update_activity env0 1001 (Some ''jwt.alice'') None alice_registered) =
     Inl (HTTPException 400 (Detail ''No active session''))
   \<and> kv_sessions (snd (verify_and_update_activity env0 1001 (Some ''jwt.alice'') None
                         alice_registered)) = []
   \<and> kv_connections (snd (verify_and_update_activity env0 1001 (Some ''jwt.alice'') None
                            alice_registered)) = []"
  by (simp add: verify_and_update_activity_def alice_registered_fields scenario_defs)


text \<open>
  C2, amended. For a valid token whose user has no connection record, the gate of the
  HTTP routes creates a default session and a non-WS connection record and returns the
  principal with the new session; the gate of the WebSocket engine raises 400
  \<open>No active session\<close> and leaves the state as it was.
\<close>

theorem http_gate_creates_default_session:
  assumes tok: "verify_token (jwt_decode e) token = Inr payload"
      and uid: "py_or (dict_get payload ''sub'') (dict_get payload ''user_id'') = Some user"
      and ne: "user \<noteq> []"
      and nc: "get_connection_info user s = None"
      and sid: "new_sid \<noteq> []"
  shows "\<exists>s'. get_current_user_with_activity e now new_sid token s =
           (Inr (make_principal user payload (Some new_sid)), s')
         \<and> (\<exists>sess. dict_get (kv_sessions s') new_sid = Some sess
                \<and> s_user_id sess = user \<and> s_chat_id sess = ''default'')
         \<and> (\<exists>c. dict_get (kv_connections s') user = Some c
                \<and> c_session_id c = Some new_sid \<and> c_ws_connected c = Some ''0'')
         \<and> verify_and_update_activity e now token expected s =
             (Inl (HTTPException 400 (Detail ''No active session'')), s)"
proof -
  define s1 where "s1 = snd (create_session new_sid now user ''default'' s)"
  define s2 where "s2 = track_connection e now user new_sid (Some (get_gateway_id e)) False s1"
  define s3 where
    "s3 = update_timestamp_only now new_sid (update_connection_timestamp e now user new_sid s2)"
  have "\<exists>c. dict_get (kv_connections s2) user = Some c \<and> c_session_id c = Some new_sid
          \<and> c_ws_connected c = Some ''0''"
    by (simp add: s2_def track_connection_def Let_def)
  then obtain c where c: "dict_get (kv_connections s2) user = Some c"
      "c_session_id c = Some new_sid" "c_ws_connected c = Some ''0''"
    by blast
  have sess2: "\<exists>sess. dict_get (kv_sessions s2) new_sid = Some sess \<and> s_user_id sess = user
      \<and> s_chat_id sess = ''default''"
    by (simp add: s2_def s1_def track_connection_def create_session_def Let_def new_session_def)
  have run: "get_current_user_with_activity e now new_sid token s =
      (Inr (make_principal user payload (Some new_sid)), s3)"
    using tok uid ne nc sid c
    by (simp add: get_current_user_with_activity_def get_or_create_session_def Let_def truthy_def
         s3_def s2_def s1_def create_session_def get_connection_info_def split: prod.splits)
  have k3: "\<exists>c. dict_get (kv_connections s3) user = Some c \<and> c_session_id c = Some new_sid
      \<and> c_ws_connected c = Some ''0''"
    using update_connection_timestamp_conn[OF c(1), of e now new_sid] c(2,3)
    by (simp add: s3_def update_timestamp_only_frame)
  have se3: "\<exists>sess. dict_get (kv_sessions s3) new_sid = Some sess \<and> s_user_id sess = user
      \<and> s_chat_id sess = ''default''"
    using sess2 by (simp add: s3_def update_timestamp_only_owner update_connection_timestamp_frame)
  have ws: "verify_and_update_activity e now token expected s =
      (Inl (HTTPException 400 (Detail ''No active session'')), s)"
    using tok uid ne nc by (simp add: verify_and_update_activity_def Let_def truthy_def)
  show ?thesis using run k3 se3 ws by blast
qed


theorem http_gate_creates_default_session_witness:
  "verify_token (jwt_decode env0) (Some ''jwt.alice'') =
     Inr [(''sub'', ''alice''), (''user_id'', ''alice''), (''role'', ''user'')]
   \<and> get_connection_info ''alice'' alice_registered = None
   \<and> (\<exists>s'. get_current_user_with_activity env0 1001 ''S1'' (Some ''jwt.alice'') alice_registered =
           (Inr \<lparr>pr_user_id = ''alice'', pr_username = Some ''alice'', pr_role = ''user'',
                 pr_session_id = Some ''S1''\<rparr>, s')
         \<and> (\<exists>sess. dict_get (kv_sessions s') ''S1'' = Some sess
                \<and> s_user_id sess = ''alice'' \<and> s_chat_id sess = ''default'')
         \<and> (\<exists>c. dict_get (kv_connections s') ''alice'' = Some c
                \<and> c_session_id c = Some ''S1'' \<and> c_ws_connected c = Some ''0''))"
proof -
  have tok: "verify_token (jwt_decode env0) (Some ''jwt.alice'') =
      Inr [(''sub'', ''alice''), (''user_id'', ''alice''), (''role'', ''user'')]"
    by (simp add: verify_token_def env0_def)
  have uid: "py_or (dict_get [(''sub'', ''alice''), (''user_id'', ''alice''), (''role'', ''user'')] ''sub'')
                   (dict_get [(''sub'', ''alice''), (''user_id'', ''alice''), (''role'', ''user'')] ''user_id'')
             = Some ''alice''"
    by (simp add: py_or_def truthy_def dict_get_def)
  have nc: "get_connection_info ''alice'' alice_registered = None"
    by (simp add: get_connection_info_def alice_registered_fields dict_get_def)
  have mp: "make_principal ''alice'' [(''sub'', ''alice''), (''user_id'', ''alice''), (''role'', ''user'')]
              (Some ''S1'') =
            \<lparr>pr_user_id = ''alice'', pr_username = Some ''alice'', pr_role = ''user'',
             pr_session_id = Some ''S1''\<rparr>"
    by (simp add: make_principal_def dict_get_def)
  from http_gate_creates_default_session [OF tok uid _ nc, of "''S1''" 1001 None]
  show ?thesis using tok nc mp by auto
qed

subsection \<open>Retries of the forwarder\<close>

lemma retrying_retry_cause:
  "attempt \<le> i \<Longrightarrow> i < snd (retrying left attempt execute) \<Longrightarrow>
   execute i = Inl TimeoutException \<or> execute i = Inl NetworkError \<or>
   (\<exists>code msg. execute i = Inl (HTTPStatusError code msg) \<and> code \<ge> 500)"
proof (induction left arbitrary: attempt)
  case 0
  then show ?case by simp
next
  case (Suc left)
  show ?case
  proof (cases "i = attempt")
    case True
    with Suc.prems show ?thesis
      by (auto simp: make_request_body_def retry_if_exception_type_def
               split: sum.splits upstream_exn.splits if_splits)
  next
    case False
    with Suc.prems have le: "Suc attempt \<le> i" by simp
    from Suc.prems(2) have "i < snd (retrying left (Suc attempt) execute)"
      using False Suc.prems(1)
      by (auto split: sum.splits if_splits)
    from Suc.IH[OF le this] show ?thesis .
  qed
qed

text \<open>
  What does hold of the forwarder: an attempt is followed by another one only when it
  ended in a timeout, a network error or a status of 500 or more.
\<close>

lemma make_request_retry_cause:
  "1 \<le> i \<Longrightarrow> i < snd (make_request execute) \<Longrightarrow>
   execute i = Inl TimeoutException \<or> execute i = Inl NetworkError \<or>
   (\<exists>code msg. execute i = Inl (HTTPStatusError code msg) \<and> code \<ge> 500)"
  unfolding make_request_def by (rule retrying_retry_cause)

text \<open>Every status below 500 ends the call at once, as the \<open>HTTP_<code>\<close> dictionary.\<close>

lemma make_request_below_500:
  "execute 1 = Inl (HTTPStatusError code msg) \<Longrightarrow> code < 500 \<Longrightarrow>
   make_request execute =
     (Inr [(''error'', JStr (''HTTP_'' @ str_nat code)), (''message'', JStr msg)], 1)"
  by (simp add: make_request_def stop_after_attempt_def numeral_2_eq_2 make_request_body_def)



subsection \<open>The batched writer\<close>





lemma dict_get_Some_key: "dict_get d k = Some v \<Longrightarrow> k \<in> fst ` set d"
  by (auto simp add: dict_get_def dest: map_of_SomeD intro: rev_image_eqI)







subsection \<open>Order of publication and pipelined write\<close>

lemma queued_simps [simp]:
  "queued [] = {}"
  "queued (tr @ [Set_queued sid]) = insert sid (queued tr)"
  "queued (tr @ [Published c p]) = queued tr"
  "queued (tr @ [Pipeline_executed]) = queued tr"
  "queued (Set_queued sid # tr) = insert sid (queued tr)"
  "queued (Published c p # tr) = queued tr"
  "queued (Pipeline_executed # tr) = queued tr"
  by (auto simp add: queued_def)



lemma script_ok_mono: "script_ok J Q steps \<Longrightarrow> Q \<subseteq> Q' \<Longrightarrow> script_ok J Q' steps"
proof (induction J Q steps arbitrary: Q' rule: script_ok.induct)
  case (1 J Q)
  then show ?case by simp
next
  case (2 J Q sid v ex rest)
  have "insert sid Q \<subseteq> insert sid Q'" using "2.prems"(2) by auto
  with "2.IH"[of "insert sid Q'"] "2.prems"(1) show ?case by simp
next
  case (3 J Q t rest)
  then show ?case by auto
next
  case (4 J Q rest)
  then show ?case by simp
qed










subsection \<open>The inactive-users sweep\<close>

lemma split_on_no_sep: "sep \<notin> set xs \<Longrightarrow> split_on sep xs = [xs]"
  by (induction xs) auto

lemma split_on_users: "split_on CHR '':'' (''users:'' @ u) = ''users'' # split_on CHR '':'' u"
  by simp

lemma split_on_nonempty: "split_on sep xs \<noteq> []"
  by (induction xs) (auto split: list.splits)

lemma cleanup_keys_sessions:
  "dict_get (kv_sessions (cleanup_keys w keys s)) k =
     (if k \<in> set keys \<and> (\<exists>sess. dict_get (kv_sessions s) k = Some sess \<and> s_user_id sess = w)
      then None else dict_get (kv_sessions s) k)"
proof (induction keys arbitrary: s)
  case Nil
  then show ?case by simp
next
  case (Cons key keys)
  show ?case
    by (simp add: Cons.IH split: option.splits) auto
qed

lemma cleanup_keys_frame:
  "kv_users (cleanup_keys w keys s) = kv_users s"
  "kv_connections (cleanup_keys w keys s) = kv_connections s"
  "published (cleanup_keys w keys s) = published s"
  by (induction keys arbitrary: s; simp split: option.splits)+

lemma cleanup_user_sessions_sessions:
  "dict_get (kv_sessions (cleanup_user_sessions w s)) k =
     (case dict_get (kv_sessions s) k of
        None \<Rightarrow> None
      | Some sess \<Rightarrow> if s_user_id sess = w then None else Some sess)"
proof (cases "dict_get (kv_sessions s) k")
  case None
  then show ?thesis by (simp add: cleanup_user_sessions_def cleanup_keys_sessions)
next
  case (Some sess)
  then have "k \<in> set (dict_keys (kv_sessions s))"
    using dict_get_Some_key[OF Some] by (simp add: dict_keys_def)
  with Some show ?thesis by (simp add: cleanup_user_sessions_def cleanup_keys_sessions)
qed

lemma cleanup_user_sessions_frame:
  "kv_users (cleanup_user_sessions w s) = kv_users s"
  "kv_connections (cleanup_user_sessions w s) = kv_connections s"
  "published (cleanup_user_sessions w s) = published s"
  by (simp_all add: cleanup_user_sessions_def cleanup_keys_frame)

lemma sweep_user_effect:
  "kv_users (sweep_user w s) = kv_users s"
  "dict_get (kv_sessions (sweep_user w s)) k =
     (case dict_get (kv_sessions s) k of
        None \<Rightarrow> None
      | Some sess \<Rightarrow> if s_user_id sess = w then None else Some sess)"
  "dict_get (kv_connections (sweep_user w s)) u =
     (if u = w then None else dict_get (kv_connections s) u)"
  "published (sweep_user w s) =
     published s @ [(''events:connection:removed:'' @ w, [(''user_id'', JStr w)]),
      (''events:user:inactive_cleanup:'' @ w,
       [(''username'', JStr w), (''reason'', JStr ''long_inactivity''),
        (''action'', JStr ''cleanup_sessions_and_ws'')])]"
  by (simp_all add: sweep_user_def remove_connection_def cleanup_user_sessions_frame
        cleanup_user_sessions_sessions)

lemma sweep_user_keeps: "swept u s \<Longrightarrow> swept u (sweep_user w s)"
  unfolding swept_def
  by (auto simp add: sweep_user_effect split: option.splits if_splits)

lemma sweep_user_swept: "swept w (sweep_user w s)"
  unfolding swept_def
  by (auto simp add: sweep_user_effect split: option.splits if_splits)

lemma cleanup_inactive_user_cases:
  "cleanup_inactive_user cutoff key s = Inr s' \<Longrightarrow>
   s' = s \<or> (\<exists>w. s' = sweep_user w s)"
  by (auto simp add: cleanup_inactive_user_def Let_def sweep_user_def
        split: list.splits if_splits)

lemma cleanup_inactive_user_users:
  "cleanup_inactive_user cutoff key s = Inr s' \<Longrightarrow> kv_users s' = kv_users s"
  using cleanup_inactive_user_cases[of cutoff key s s'] by (auto simp add: sweep_user_effect)

lemma cleanup_inactive_user_swept:
  assumes "cleanup_inactive_user cutoff key s = Inr s'" and "swept u s"
  shows "swept u s'"
  using cleanup_inactive_user_cases[OF assms(1)] assms(2) by (auto intro: sweep_user_keeps)

lemma cleanup_inactive_user_ok:
  "\<exists>s'. cleanup_inactive_user cutoff (''users:'' @ w) s = Inr s'"
proof -
  obtain p ps where "split_on CHR '':'' w = p # ps"
    using split_on_nonempty[of "CHR '':''" w] by (cases "split_on CHR '':'' w") auto
  then show ?thesis
    by (simp add: cleanup_inactive_user_def Let_def)
qed

lemma cleanup_inactive_user_sweeps:
  assumes "dict_get (kv_users s) u = Some ud" and "u_last_login ud < cutoff"
      and "CHR '':'' \<notin> set u"
  shows "\<exists>s'. cleanup_inactive_user cutoff (''users:'' @ u) s = Inr s' \<and> swept u s'"
proof -
  have "cleanup_inactive_user cutoff (''users:'' @ u) s = Inr (sweep_user u s)"
    using assms
    by (simp add: cleanup_inactive_user_def Let_def split_on_no_sep hgetall_user_def
          sweep_user_def)
  then show ?thesis using sweep_user_swept by simp
qed

lemma cleanup_inactive_keys_sweeps:
  assumes "u \<in> set names" 
      and "dict_get (kv_users s) u = Some ud" and "u_last_login ud < cutoff"
      and "CHR '':'' \<notin> set u"
  shows "\<exists>s'. cleanup_inactive_keys cutoff (map (\<lambda>n. ''users:'' @ n) names) s = Inr s'
           \<and> swept u s' \<and> kv_users s' = kv_users s"
proof -
  have keep: "\<exists>s'. cleanup_inactive_keys cutoff (map (\<lambda>n. ''users:'' @ n) ns) s = Inr s'
           \<and> swept u s' \<and> kv_users s' = kv_users s" if "swept u s" for ns s
    using that
  proof (induction ns arbitrary: s)
    case Nil
    then show ?case by simp
  next
    case (Cons n ns)
    obtain s1 where s1: "cleanup_inactive_user cutoff (''users:'' @ n) s = Inr s1"
      using cleanup_inactive_user_ok by blast
    have "swept u s1" using cleanup_inactive_user_swept[OF s1 Cons.prems] .
    from Cons.IH[OF this] obtain s' where
      "cleanup_inactive_keys cutoff (map (\<lambda>n. ''users:'' @ n) ns) s1 = Inr s'"
      "swept u s'" "kv_users s' = kv_users s1"
      by blast
    then show ?case using s1 cleanup_inactive_user_users[OF s1] by simp
  qed
  show ?thesis using assms
  proof (induction names arbitrary: s)
    case Nil
    then show ?case by simp
  next
    case (Cons n ns)
    obtain s1 where s1: "cleanup_inactive_user cutoff (''users:'' @ n) s = Inr s1"
      using cleanup_inactive_user_ok by blast
    have u1: "kv_users s1 = kv_users s" using cleanup_inactive_user_users[OF s1] .
    show ?case
    proof (cases "n = u")
      case True
      obtain s1' where "cleanup_inactive_user cutoff (''users:'' @ u) s = Inr s1'" "swept u s1'"
        using cleanup_inactive_user_sweeps[OF Cons.prems(2,3,4)] by blast
      with s1 True have "swept u s1" by simp
      from keep[OF this, of ns] show ?thesis using s1 u1 by auto
    next
      case False
      with Cons.prems(1) have "u \<in> set ns" by simp
      from Cons.IH[OF this, of s1] Cons.prems(2,3,4) u1 obtain s' where
        "cleanup_inactive_keys cutoff (map (\<lambda>n. ''users:'' @ n) ns) s1 = Inr s'"
        "swept u s'" "kv_users s' = kv_users s1"
        by auto
      then show ?thesis using s1 u1 by simp
    qed
  qed
qed

text \<open>
  What does hold of the sweep: for a user whose name has no colon and whose last login is
  older than the cutoff, the sweep returns, no session of the user and no connection
  record of the user is left, the event is published, and the user records are as before.
\<close>

lemma cleanup_inactive_users_colon_free:
  assumes "dict_get (kv_users s) u = Some ud"
      and "u_last_login ud < now - real_of_int (days_inactive * 86400)"
      and "CHR '':'' \<notin> set u"
  shows "\<exists>s'. cleanup_inactive_users days_inactive now s = Inr s'
           \<and> swept u s' \<and> kv_users s' = kv_users s"
proof -
  have "u \<in> set (dict_keys (kv_users s))"
    using dict_get_Some_key[OF assms(1)] by (simp add: dict_keys_def)
  from cleanup_inactive_keys_sweeps[OF this assms]
  show ?thesis by (simp add: cleanup_inactive_users_def user_keys_def)
qed

lemma cleanup_inactive_users_bob:
  "dict_get (kv_users bob_store) ''bob'' =
     Some \<lparr>u_password = ''sha256:pw'', u_email = ''b@x'', u_role = ''user'', u_last_login = 1\<rparr>
   \<and> (\<exists>s'. cleanup_inactive_users 365 40000000 bob_store = Inr s'
          \<and> swept ''bob'' s' \<and> kv_users s' = kv_users bob_store)"
proof -
  have u: "dict_get (kv_users bob_store) ''bob'' =
     Some \<lparr>u_password = ''sha256:pw'', u_email = ''b@x'', u_role = ''user'', u_last_login = 1\<rparr>"
    by (simp add: bob_store_def dict_get_def)
  from cleanup_inactive_users_colon_free[OF u, of 40000000 365] u show ?thesis by simp
qed

text \<open>
  C7. The claim is about every user; the code recovers the user name from the key with
  \<^verbatim>\<open>key.split(":")[1]\<close>, which is the name only up to its first colon. For the
  long-inactive user \<open>a:b\<close> the sweep cleans up the user \<open>a\<close> instead: the session and
  the connection record of \<open>a:b\<close> stay, the session and the connection record of the
  active user \<open>a\<close> are deleted, and the event is published for \<open>a\<close>.
\<close>

theorem cleanup_inactive_users_colon_username:
  "map_sum id
     (\<lambda>s. (map (\<lambda>(k, v). (k, s_user_id v)) (kv_sessions s), dict_keys (kv_connections s),
           map fst (published s)))
     (cleanup_inactive_users 365 40000000 colon_store) =
   Inr ([(''S1'', ''a:b'')], [''a:b''],
        [''events:connection:removed:a'', ''events:user:inactive_cleanup:a''])"
  by (simp add: cleanup_inactive_users_def user_keys_def dict_keys_def colon_store_def gw0_def
        cleanup_inactive_user_def hgetall_user_def cleanup_user_sessions_def
        remove_connection_def publish_def dict_get_def dict_del_def new_session_def Let_def)

end
